theory Spec2Isabelle
  imports Main "HOL-Library.AList"
begin

section \<open>The tailx reader of logkit (reader/tailx/tailx.go)\<close>

text \<open>
  The development embeds the follower (\<open>ActiveReader\<close>) and the engine (\<open>Reader\<close>) of
  \<^verbatim>\<open>src/reader/tailx/tailx.go\<close>. Go's \<open>time.Duration\<close> (nanoseconds) and
  \<open>time.Time\<close> (nanoseconds since the epoch) are integers; a duration may be negative, as
  \<open>time.ParseDuration\<close> accepts a sign. Everything the code reads from the operating
  system, the file system or the external LineBuffer and MetaStore packages is a field of
  the environment record \<open>env\<close>. Log statements have no effect on the state and are left out.
\<close>

subsection \<open>Errors\<close>

datatype error = EOF | ErrClosed | ErrNotExist | Errorf string

fun Error :: "error \<Rightarrow> string" where
  "Error EOF = ''EOF''"
| "Error ErrClosed = ''file already closed''"
| "Error ErrNotExist = ''no such file or directory''"
| "Error (Errorf s) = s"

definition os_IsNotExist :: "error \<Rightarrow> bool" where
  "os_IsNotExist err = (err = ErrNotExist)"

subsection \<open>Status constants and whence\<close>

text \<open>
  Modelled from the spec: the constants \<open>StatusInit\<close>, \<open>StatusRunning\<close>,
  \<open>StatusStopping\<close> and \<open>StatusStopped\<close> are declared in the package reader/config, which is
  not among the sources. The spec gives the status atom the four states Init, Running,
  Stopping and Stopped; the \<open>int32\<close> field only ever holds one of these four constants.
\<close>

datatype status = StatusInit | StatusRunning | StatusStopping | StatusStopped

text \<open>
  Modelled from the spec: \<open>WhenceOldest\<close> is declared in reader/config; the spec names the
  two values of whence \<open>oldest\<close> and \<open>newest\<close>.
\<close>

definition WhenceOldest :: string where
  "WhenceOldest = ''oldest''"

definition WhenceNewest :: string where
  "WhenceNewest = ''newest''"

subsection \<open>Channels\<close>

text \<open>
  A channel is the trace of the values whose send has completed, and whether it has been
  closed. A send on a closed channel panics. The channels of the engine are unbuffered: a
  send waits for its receiver, and the functions below take it that the receiver comes.
\<close>

record 'a chan =
  ch_closed :: bool
  ch_sent :: "'a list"

record Result =
  result :: string
  logpath :: string

subsection \<open>The environment\<close>

record FileInfo =
  IsDir :: bool
  ModTime :: int

record SubMeta =
  IsNotExist :: bool

record Meta =
  RunnerName :: string
  IsStatisticFileExist :: bool

text \<open>
  \<open>others k s\<close> is the value other goroutines leave in a follower's status atom while this
  goroutine sleeps for the \<open>k\<close>-th time, when the atom held \<open>s\<close> before the sleep.
\<close>

record env =
  now :: int
  os_Stat :: "string \<Rightarrow> error + FileInfo"
  GetRealPath :: "string \<Rightarrow> error + (string \<times> FileInfo)"
  Glob :: "string \<Rightarrow> error + string list"
  IsFileModified :: "string \<Rightarrow> bool"
  NewMetaWithRunnerName :: "string \<Rightarrow> error + SubMeta"
  NewSingleFile :: "string \<Rightarrow> string \<Rightarrow> error option"
  NewReaderSize :: "string \<Rightarrow> error option"
  br_SetMode :: "string \<Rightarrow> string \<Rightarrow> error option"
  br_Close :: "string \<Rightarrow> error option"
  AddSubMeta :: "string \<Rightarrow> error option"
  ParseDuration :: "string \<Rightarrow> error + int"
  Atoi :: "string \<Rightarrow> int option"
  ReadBufMeta :: "error + int"
  ReadBuf :: "error + string"
  Unmarshal :: "string \<Rightarrow> (string \<times> string) list"
  others :: "nat \<Rightarrow> status \<Rightarrow> status"

subsection \<open>The follower\<close>

text \<open>
  The LineBuffer handle \<open>br\<close> records the arguments it was opened with (path, whence and
  submeta), the head pattern set on it, and whether \<open>Close\<close> has been called on it.
\<close>

record BufReader =
  br_path :: string
  br_whence :: string
  br_Meta :: SubMeta
  br_mode :: "string option"
  br_closed :: bool

record StatsInfo =
  LastError :: string

record ActiveReader =
  ar_br :: BufReader
  ar_realpath :: string
  ar_originpath :: string
  ar_readcache :: string
  ar_status :: status
  ar_inactive :: int
  ar_runnerName :: string
  ar_emptyLineCnt :: int
  ar_stats :: StatsInfo

definition NewActiveReader ::
  "env \<Rightarrow> string \<Rightarrow> string \<Rightarrow> string \<Rightarrow> bool \<Rightarrow> Meta \<Rightarrow> error + ActiveReader" where
  "NewActiveReader e originPath realPath whence notFirstTime meta =
     (case NewMetaWithRunnerName e realPath of
        Inl err \<Rightarrow> Inl err
      | Inr subMeta \<Rightarrow>
          (let isNewFile = (IsStatisticFileExist meta \<or> notFirstTime);
               whence1 = (if isNewFile \<and> IsNotExist subMeta then WhenceOldest else whence)
           in case NewSingleFile e realPath whence1 of
                Some err \<Rightarrow> Inl err
              | None \<Rightarrow>
                  (case NewReaderSize e realPath of
                     Some err \<Rightarrow> Inl err
                   | None \<Rightarrow>
                       Inr \<lparr> ar_br = \<lparr> br_path = realPath, br_whence = whence1,
                                       br_Meta = subMeta, br_mode = None, br_closed = False \<rparr>,
                             ar_realpath = realPath,
                             ar_originpath = originPath,
                             ar_readcache = [],
                             ar_status = StatusInit,
                             ar_inactive = 1,
                             ar_runnerName = RunnerName meta,
                             ar_emptyLineCnt = 0,
                             ar_stats = \<lparr> LastError = [] \<rparr> \<rparr>)))"

text \<open>
  The wait loop of \<open>Stop\<close>: \<open>cnt\<close> is the number of one-second sleeps made so far. The result
  is the status the loop leaves and the number of sleeps.
\<close>

function Stop_wait :: "(nat \<Rightarrow> status \<Rightarrow> status) \<Rightarrow> nat \<Rightarrow> status \<Rightarrow> status \<times> nat" where
  "Stop_wait oth cnt st =
     (if st \<noteq> StatusStopped
      then (if cnt + 1 > 3 then (st, cnt)
            else Stop_wait oth (cnt + 1) (oth (cnt + 1) st))
      else (st, cnt))"
  by pat_completeness auto
termination
  by (relation "measure (\<lambda>(oth, cnt, st). 4 - cnt)") auto

declare Stop_wait.simps [simp del]

text \<open>\<open>Stop\<close> returns the follower, the error and the seconds slept.\<close>

definition Stop :: "(nat \<Rightarrow> status \<Rightarrow> status) \<Rightarrow> ActiveReader \<Rightarrow> ActiveReader \<times> error option \<times> nat" where
  "Stop oth ar =
     (if ar_status ar = StatusStopped then (ar, None, 0)
      else
        (let ar1 = (if ar_status ar = StatusRunning then ar\<lparr>ar_status := StatusStopping\<rparr> else ar)
         in if ar_status ar \<noteq> StatusRunning \<and> ar_status ar1 \<noteq> StatusStopping
            then (ar1, Some (Errorf (''Runner['' @ ar_runnerName ar @ ''] ActiveReader '' @ ar_originpath ar
                      @ '' was not in StatusRunning or StatusStopping status, exit it... '')), 0)
            else (case Stop_wait oth 0 (ar_status ar1) of
                    (st, slept) \<Rightarrow> (ar1\<lparr>ar_status := st\<rparr>, None, slept))))"

definition Close :: "env \<Rightarrow> ActiveReader \<Rightarrow> ActiveReader \<times> error option" where
  "Close e ar =
     (let brCloseErr = br_Close e (br_path (ar_br ar));
          ar1 = ar\<lparr>ar_br := (ar_br ar)\<lparr>br_closed := True\<rparr>\<rparr>
      in case Stop (others e) ar1 of
           (ar2, Some err, slept) \<Rightarrow> (ar2, brCloseErr)
         | (ar2, None, slept) \<Rightarrow> (ar2, None))"

definition isStopping :: "ActiveReader \<Rightarrow> bool" where
  "isStopping ar = (ar_status ar = StatusStopping)"

definition hasStopped :: "ActiveReader \<Rightarrow> bool" where
  "hasStopped ar = (ar_status ar = StatusStopped)"

definition setStatsError :: "ActiveReader \<Rightarrow> string \<Rightarrow> ActiveReader" where
  "setStatsError ar err = ar\<lparr>ar_stats := (ar_stats ar)\<lparr>LastError := err\<rparr>\<rparr>"

text \<open>
  \<open>sendError\<close> returns the error channel. The send on a closed channel panics, the
  deferred \<open>recover\<close> absorbs the panic, and nothing is sent.
\<close>

definition sendError :: "ActiveReader \<Rightarrow> error option \<Rightarrow> error chan \<Rightarrow> error chan" where
  "sendError ar err errChan =
     (case err of
        None \<Rightarrow> errChan
      | Some err1 \<Rightarrow>
          if isStopping ar \<or> hasStopped ar then errChan
          else if ch_closed errChan then errChan
          else errChan\<lparr>ch_sent := ch_sent errChan @ [err1]\<rparr>)"

definition expired :: "env \<Rightarrow> ActiveReader \<Rightarrow> int \<Rightarrow> bool" where
  "expired e ar expire =
     (if expire = 0 then False
      else case os_Stat e (ar_realpath ar) of
             Inl err \<Rightarrow> (if os_IsNotExist err then True else False)
           | Inr fi \<Rightarrow>
               (if ModTime fi + expire < now e \<and> ar_inactive ar > 0 then True else False))"

subsection \<open>The reading loop of the follower\<close>

text \<open>
  \<open>Run\<close> is driven by what its blocking operations return: the results of the successive
  \<open>br.ReadLine\<close> calls and the cases of the successive \<open>select\<close> statements (the send on
  \<open>msgchan\<close> completed, or the ticker fired). \<open>rs_clock\<close> counts the sleeps and selects
  made so far; after each of them the status atom holds what the other goroutines left
  there. When the events run out before \<open>Run\<close> returns, the result is \<open>None\<close>.
\<close>

record run_state =
  rs_ar :: ActiveReader
  rs_msgchan :: "Result list"
  rs_errChan :: "error chan"
  rs_clock :: nat

datatype select_send = Sent | Ticked

datatype deliver = Exit run_state | Done run_state "select_send list" | Starved

datatype fetch = Return run_state | Continue run_state | Deliver run_state

definition cas_Stopping_Stopped :: "ActiveReader \<Rightarrow> ActiveReader" where
  "cas_Stopping_Stopped ar =
     (if ar_status ar = StatusStopping then ar\<lparr>ar_status := StatusStopped\<rparr> else ar)"

text \<open>The inner loop of \<open>Run\<close>, which delivers \<open>readcache\<close>.\<close>

fun Run_deliver :: "(nat \<Rightarrow> status \<Rightarrow> status) \<Rightarrow> run_state \<Rightarrow> select_send list \<Rightarrow> deliver" where
  "Run_deliver oth rs sels =
     (if ar_readcache (rs_ar rs) = [] then Done rs sels
      else
        (let ar1 = (rs_ar rs)\<lparr>ar_inactive := 0, ar_emptyLineCnt := 0\<rparr>
         in if ar_status ar1 = StatusStopped \<or> ar_status ar1 = StatusStopping
            then Exit (rs\<lparr>rs_ar := cas_Stopping_Stopped ar1\<rparr>)
            else
              (case sels of
                 [] \<Rightarrow> Starved
               | s # sels1 \<Rightarrow>
                   (let k = rs_clock rs + 1;
                        ar2 = (case s of
                                 Sent \<Rightarrow> ar1\<lparr>ar_readcache := []\<rparr>
                               | Ticked \<Rightarrow> ar1);
                        msgs = (case s of
                                  Sent \<Rightarrow> rs_msgchan rs @
                                    [\<lparr> result = ar_readcache ar1, logpath = ar_originpath ar1 \<rparr>]
                                | Ticked \<Rightarrow> rs_msgchan rs)
                    in Run_deliver oth
                         (rs\<lparr> rs_ar := ar2\<lparr>ar_status := oth k (ar_status ar2)\<rparr>,
                              rs_msgchan := msgs, rs_clock := k \<rparr>) sels1))))"

text \<open>\<open>ar.Stop()\<close> called from \<open>Run\<close>; the error it returns is dropped.\<close>

definition Run_Stop :: "(nat \<Rightarrow> status \<Rightarrow> status) \<Rightarrow> run_state \<Rightarrow> run_state" where
  "Run_Stop oth rs =
     (case Stop (\<lambda>j. oth (rs_clock rs + j)) (rs_ar rs) of
        (ar1, err, slept) \<Rightarrow> rs\<lparr> rs_ar := ar1, rs_clock := rs_clock rs + slept \<rparr>)"

text \<open>
  The fetch phase of one iteration of \<open>Run\<close>, entered with an empty \<open>readcache\<close>, for the
  result \<open>(line, err)\<close> of \<open>br.ReadLine\<close>.
\<close>

definition Run_fetch :: "(nat \<Rightarrow> status \<Rightarrow> status) \<Rightarrow> run_state \<Rightarrow> string \<times> error option \<Rightarrow> fetch" where
  "Run_fetch oth rs rd =
     (case rd of (line, err) \<Rightarrow>
        (let ar1 = (rs_ar rs)\<lparr>ar_readcache := line\<rparr>
         in if err \<noteq> None \<and> err \<noteq> Some EOF \<and> err \<noteq> Some ErrClosed
            then
              (let ar2 = setStatsError ar1 (case err of None \<Rightarrow> [] | Some err1 \<Rightarrow> Error err1)
               in Return (Run_Stop oth
                    (rs\<lparr> rs_ar := ar2, rs_errChan := sendError ar2 err (rs_errChan rs) \<rparr>)))
            else if ar_readcache ar1 = []
            then
              (let ar2 = ar1\<lparr>ar_emptyLineCnt := ar_emptyLineCnt ar1 + 1\<rparr>
               in if err = Some EOF
                  then Return (Run_Stop oth (rs\<lparr>rs_ar := ar2\<lparr>ar_inactive := 1\<rparr>\<rparr>))
                  else if ar_emptyLineCnt ar2 > 3
                  then Return (Run_Stop oth (rs\<lparr>rs_ar := ar2\<lparr>ar_inactive := 1\<rparr>\<rparr>))
                  else
                    (let k = rs_clock rs + 1
                     in Continue (rs\<lparr> rs_ar := ar2\<lparr>ar_status := oth k (ar_status ar2)\<rparr>,
                                       rs_clock := k \<rparr>)))
            else Deliver (rs\<lparr>rs_ar := ar1\<rparr>)))"

declare Run_deliver.simps [simp del]

lemma Run_deliver_consumes:
  "Run_deliver oth rs sels = Done rs1 sels1 \<Longrightarrow>
     length sels1 \<le> length sels \<and>
     (ar_readcache (rs_ar rs) \<noteq> [] \<longrightarrow> length sels1 < length sels)"
proof (induction oth rs sels rule: Run_deliver.induct)
  case (1 oth rs sels)
  note unfolded = "1.prems" [unfolded Run_deliver.simps [of oth rs sels]]
  show ?case
  proof (cases "ar_readcache (rs_ar rs) = []")
    case True
    with unfolded show ?thesis by simp
  next
    case False
    note nonempty = this
    show ?thesis
    proof (cases sels)
      case Nil
      with unfolded nonempty show ?thesis
        by (simp add: Let_def split: if_splits)
    next
      case (Cons s sels2)
      with unfolded nonempty "1.IH" show ?thesis
        by (fastforce simp: Let_def split: if_splits)
    qed
  qed
qed

text \<open>The outer loop of \<open>Run\<close>.\<close>

function Run_loop ::
  "(nat \<Rightarrow> status \<Rightarrow> status) \<Rightarrow> run_state \<Rightarrow> (string \<times> error option) list \<Rightarrow> select_send list
     \<Rightarrow> run_state option" where
  "Run_loop oth rs reads sels =
     (if ar_status (rs_ar rs) = StatusStopped \<or> ar_status (rs_ar rs) = StatusStopping
      then Some (rs\<lparr>rs_ar := cas_Stopping_Stopped (rs_ar rs)\<rparr>)
      else if ar_readcache (rs_ar rs) = []
      then
        (case reads of
           [] \<Rightarrow> None
         | rd # reads1 \<Rightarrow>
             (case Run_fetch oth rs rd of
                Return rs1 \<Rightarrow> Some rs1
              | Continue rs1 \<Rightarrow> Run_loop oth rs1 reads1 sels
              | Deliver rs1 \<Rightarrow>
                  (case Run_deliver oth rs1 sels of
                     Exit rs2 \<Rightarrow> Some rs2
                   | Starved \<Rightarrow> None
                   | Done rs2 sels2 \<Rightarrow> Run_loop oth rs2 reads1 sels2)))
      else
        (case Run_deliver oth rs sels of
           Exit rs2 \<Rightarrow> Some rs2
         | Starved \<Rightarrow> None
         | Done rs2 sels2 \<Rightarrow> Run_loop oth rs2 reads sels2))"
  by pat_completeness auto
termination
proof (relation "measure (\<lambda>(oth, rs, reads, sels). length reads + length sels)", goal_cases)
  case 1
  show ?case by simp
next
  case 2
  then show ?case by simp
next
  case 3
  then show ?case by (auto dest!: Run_deliver_consumes)
next
  case 4
  then show ?case by (auto dest!: Run_deliver_consumes)
qed

declare Run_loop.simps [simp del]

definition Run ::
  "(nat \<Rightarrow> status \<Rightarrow> status) \<Rightarrow> ActiveReader \<Rightarrow> Result list \<Rightarrow> error chan
     \<Rightarrow> (string \<times> error option) list \<Rightarrow> select_send list \<Rightarrow> run_state option" where
  "Run oth ar msgchan errChan reads sels =
     (if ar_status ar \<noteq> StatusInit
      then Some \<lparr> rs_ar = ar, rs_msgchan = msgchan, rs_errChan = errChan, rs_clock = 0 \<rparr>
      else Run_loop oth
             \<lparr> rs_ar = ar\<lparr>ar_status := StatusRunning\<rparr>, rs_msgchan = msgchan,
               rs_errChan = errChan, rs_clock = 0 \<rparr> reads sels)"

text \<open>
  The wait loop of \<open>Start\<close>: \<open>cnt\<close> is the number of 10 ms sleeps made so far.
\<close>

function Start_wait :: "(nat \<Rightarrow> status \<Rightarrow> status) \<Rightarrow> nat \<Rightarrow> status \<Rightarrow> status" where
  "Start_wait oth cnt st =
     (if st \<noteq> StatusStopped
      then (if cnt + 1 > 300 then st
            else Start_wait oth (cnt + 1) (oth (cnt + 1) st))
      else st)"
  by pat_completeness auto
termination
  by (relation "measure (\<lambda>(oth, cnt, st). 301 - cnt)") auto

declare Start_wait.simps [simp del]

text \<open>
  \<open>Start\<close> returns the follower and whether it launched a \<open>Run\<close> goroutine. What that
  goroutine does later is not part of the call.
\<close>

definition Start :: "(nat \<Rightarrow> status \<Rightarrow> status) \<Rightarrow> ActiveReader \<Rightarrow> ActiveReader \<times> bool" where
  "Start oth ar =
     (if ar_status ar = StatusRunning then (ar, False)
      else
        (let ar1 = (if ar_status ar = StatusStopping
                    then (let st = Start_wait oth 0 (ar_status ar)
                          in ar\<lparr>ar_status := (if st = StatusStopping then StatusStopped else st)\<rparr>)
                    else ar)
         in (ar1\<lparr>ar_status := StatusInit\<rparr>, True)))"

subsection \<open>The engine\<close>

text \<open>
  The maps \<open>fileReaders\<close> and \<open>cacheMap\<close> are association lists with distinct keys;
  \<open>len\<close> of the map is the length of the list. The channels \<open>msgChan\<close> and \<open>errChan\<close> are
  shared with the followers and are passed beside the record.
\<close>

record Reader =
  r_meta :: Meta
  r_status :: status
  r_stats :: StatsInfo
  r_fileReaders :: "(string \<times> ActiveReader) list"
  r_currentFile :: string
  r_headRegexp :: "string option"
  r_cacheMap :: "(string \<times> string) list"
  r_logPathPattern :: string
  r_ignoreLogPathPattern :: string
  r_expire :: int
  r_submetaExpire :: int
  r_statInterval :: int
  r_maxOpenFiles :: int
  r_whence :: string
  r_notFirstTime :: bool

text \<open>
  Modelled from the spec: the package conf is not among the sources. A \<open>MapConf\<close> maps keys
  to strings; \<open>GetString\<close> fails on a missing required key, and the \<open>Or\<close> getters return the
  default when the key is absent (for \<open>GetIntOr\<close> also when the value is not a number). The
  key names are those of the spec's configuration list.
\<close>

type_synonym MapConf = "string \<rightharpoonup> string"

definition GetString :: "MapConf \<Rightarrow> string \<Rightarrow> error + string" where
  "GetString conf key =
     (case conf key of
        None \<Rightarrow> Inl (Errorf (''missing key '' @ key))
      | Some v \<Rightarrow> Inr v)"

definition GetStringOr :: "MapConf \<Rightarrow> string \<Rightarrow> string \<Rightarrow> string" where
  "GetStringOr conf key deft = (case conf key of None \<Rightarrow> deft | Some v \<Rightarrow> v)"

definition GetIntOr :: "env \<Rightarrow> MapConf \<Rightarrow> string \<Rightarrow> int \<Rightarrow> int" where
  "GetIntOr e conf key deft =
     (case conf key of
        None \<Rightarrow> deft
      | Some v \<Rightarrow> (case Atoi e v of None \<Rightarrow> deft | Some n \<Rightarrow> n))"

definition KeyLogPath :: string where "KeyLogPath = ''log_path_pattern''"
definition KeyIgnoreLogPath :: string where "KeyIgnoreLogPath = ''ignore_log_path_pattern''"
definition KeyWhence :: string where "KeyWhence = ''whence''"
definition KeyExpire :: string where "KeyExpire = ''expire''"
definition KeySubmetaExpire :: string where "KeySubmetaExpire = ''submeta_expire''"
definition KeyStatInterval :: string where "KeyStatInterval = ''stat_interval''"
definition KeyMaxOpenFiles :: string where "KeyMaxOpenFiles = ''max_open_files''"

text \<open>
  Modelled from the spec: \<open>IsSubmetaExpireValid\<close> is declared in utils/models, which is not
  among the sources. The spec: \<open>submeta_expire\<close> must be at least \<open>expire\<close> when nonzero, else
  configuration error; the predicate is the one \<open>NewReader\<close> returns the error on.
\<close>

definition IsSubmetaExpireValid :: "int \<Rightarrow> int \<Rightarrow> bool" where
  "IsSubmetaExpireValid submetaExpire expire = (submetaExpire \<noteq> 0 \<and> submetaExpire < expire)"

definition isSpace :: "char \<Rightarrow> bool" where
  "isSpace c = (c \<in> set [CHR '' '', CHR 0x09, CHR 0x0A, CHR 0x0B, CHR 0x0C, CHR 0x0D])"

definition TrimSpace :: "string \<Rightarrow> string" where
  "TrimSpace s = rev (dropWhile isSpace (rev (dropWhile isSpace s)))"

definition NewReader :: "env \<Rightarrow> Meta \<Rightarrow> MapConf \<Rightarrow> error + Reader" where
  "NewReader e meta conf =
     (case GetString conf KeyLogPath of
        Inl err \<Rightarrow> Inl err
      | Inr logPathPattern \<Rightarrow>
     (let whence = GetStringOr conf KeyWhence WhenceOldest;
          statIntervalDur = GetStringOr conf KeyStatInterval ''3m'';
          maxOpenFiles = GetIntOr e conf KeyMaxOpenFiles 256;
          expireDur = GetStringOr conf KeyExpire ''24h''
      in case ParseDuration e expireDur of
        Inl err \<Rightarrow> Inl err
      | Inr expire \<Rightarrow>
     (let ignoreLogPathPattern = GetStringOr conf KeyIgnoreLogPath [];
          submetaExpireDur = GetStringOr conf KeySubmetaExpire ''720h''
      in case ParseDuration e submetaExpireDur of
        Inl err \<Rightarrow> Inl err
      | Inr submetaExpire \<Rightarrow>
          if IsSubmetaExpireValid submetaExpire expire
          then Inl (Errorf (CHR 0x22 # KeySubmetaExpire @ CHR 0x22 # '' valus is less than ''
                      @ CHR 0x22 # KeyExpire @ [CHR 0x22]))
          else
     (case ParseDuration e statIntervalDur of
        Inl err \<Rightarrow> Inl err
      | Inr statInterval \<Rightarrow>
     (let bufsize = (case ReadBufMeta e of Inl err \<Rightarrow> 0 | Inr n \<Rightarrow> n);
          cacheMap = (if bufsize > 0
                      then (case ReadBuf e of Inl err \<Rightarrow> [] | Inr buf \<Rightarrow> Unmarshal e buf)
                      else [])
      in Inr \<lparr> r_meta = meta,
                r_status = StatusInit,
                r_stats = \<lparr> LastError = [] \<rparr>,
                r_fileReaders = [],
                r_currentFile = [],
                r_headRegexp = None,
                r_cacheMap = cacheMap,
                r_logPathPattern = logPathPattern,
                r_ignoreLogPathPattern = TrimSpace ignoreLogPathPattern,
                r_expire = expire,
                r_submetaExpire = submetaExpire,
                r_statInterval = statInterval,
                r_maxOpenFiles = maxOpenFiles,
                r_whence = whence,
                r_notFirstTime = False \<rparr>)))))"

definition r_isStopping :: "Reader \<Rightarrow> bool" where
  "r_isStopping r = (r_status r = StatusStopping)"

definition r_hasStopped :: "Reader \<Rightarrow> bool" where
  "r_hasStopped r = (r_status r = StatusStopped)"

definition r_setStatsError :: "Reader \<Rightarrow> string \<Rightarrow> Reader" where
  "r_setStatsError r err = r\<lparr>r_stats := (r_stats r)\<lparr>LastError := err\<rparr>\<rparr>"

definition r_sendError :: "error option \<Rightarrow> error chan \<Rightarrow> error chan" where
  "r_sendError err errChan =
     (case err of
        None \<Rightarrow> errChan
      | Some err1 \<Rightarrow>
          if ch_closed errChan then errChan
          else errChan\<lparr>ch_sent := ch_sent errChan @ [err1]\<rparr>)"

text \<open>
  \<open>Reader.Start\<close> returns the engine, the error, and whether it launched the discovery
  goroutine, which runs \<open>tick\<close> at once and then on every tick of \<open>statInterval\<close>.
\<close>

definition r_Start :: "Reader \<Rightarrow> Reader \<times> error option \<times> bool" where
  "r_Start r =
     (if r_isStopping r \<or> r_hasStopped r
      then (r, Some (Errorf ''reader is stopping or has stopped''), False)
      else if r_status r \<noteq> StatusInit then (r, None, False)
      else (r\<lparr>r_status := StatusRunning\<rparr>, None, True))"

text \<open>
  \<open>checkExpiredFiles\<close> ranges over the entries of \<open>fileReaders\<close> and deletes the expired
  ones as it goes; it returns the engine and the followers it closed.
\<close>

definition checkExpiredFiles_entry ::
  "env \<Rightarrow> string \<times> ActiveReader \<Rightarrow> Reader \<times> ActiveReader list \<Rightarrow> Reader \<times> ActiveReader list" where
  "checkExpiredFiles_entry e entry acc =
     (case (entry, acc) of
        ((path, ar), (r, closedars)) \<Rightarrow>
          if expired e ar (r_expire r)
          then (r\<lparr> r_fileReaders := AList.delete path (r_fileReaders r),
                    r_cacheMap := AList.delete path (r_cacheMap r) \<rparr>,
                closedars @ [fst (Close e ar)])
          else (r, closedars))"

definition checkExpiredFiles :: "env \<Rightarrow> Reader \<Rightarrow> Reader \<times> ActiveReader list" where
  "checkExpiredFiles e r = fold (checkExpiredFiles_entry e) (r_fileReaders r) (r, [])"

text \<open>The body of the loop of \<open>statLogPath\<close> over the matches of the glob.\<close>

definition statLogPath_match ::
  "env \<Rightarrow> string list \<Rightarrow> string \<Rightarrow> Reader \<times> error chan \<Rightarrow> Reader \<times> error chan" where
  "statLogPath_match e unmatches mc acc =
     (case acc of (r, errChan) \<Rightarrow>
        if mc \<in> set unmatches then (r, errChan)
        else
          (case GetRealPath e mc of
             Inl err \<Rightarrow> (r, errChan)
           | Inr (rp, fi) \<Rightarrow>
               if IsDir fi then (r, errChan)
               else
                 (case map_of (r_fileReaders r) rp of
                    Some filear \<Rightarrow>
                      (if IsFileModified e rp
                       then (r\<lparr>r_fileReaders :=
                                 AList.update rp (fst (Start (others e) filear)) (r_fileReaders r)\<rparr>, errChan)
                       else (r, errChan))
                  | None \<Rightarrow>
                      (let cacheline = (case map_of (r_cacheMap r) rp of None \<Rightarrow> [] | Some l \<Rightarrow> l)
                       in if cacheline = [] \<and> r_expire r > 0 \<and> ModTime fi + r_expire r < now e
                          then (r, errChan)
                          else
                            (case NewActiveReader e mc rp (r_whence r) (r_notFirstTime r) (r_meta r) of
                               Inl err \<Rightarrow>
                                 (r, r_sendError (Some (Errorf (''runner['' @ RunnerName (r_meta r)
                                        @ ''] NewActiveReader for matches '' @ rp @ '' error '' @ Error err))) errChan)
                             | Inr ar \<Rightarrow>
                                 (let ar1 = ar\<lparr>ar_readcache := cacheline\<rparr>;
                                      seterr = (case r_headRegexp r of
                                                  None \<Rightarrow> None
                                                | Some re \<Rightarrow> br_SetMode e rp re);
                                      ar2 = (case r_headRegexp r of
                                               None \<Rightarrow> ar1
                                             | Some re \<Rightarrow>
                                                 (if seterr = None
                                                  then ar1\<lparr>ar_br := (ar_br ar1)\<lparr>br_mode := Some re\<rparr>\<rparr>
                                                  else ar1));
                                      r1 = (case seterr of
                                              None \<Rightarrow> r
                                            | Some err \<Rightarrow>
                                                r_setStatsError r (''Runner['' @ RunnerName (r_meta r)
                                                  @ ''] NewActiveReader for matches '' @ rp
                                                  @ '' SetMode error '' @ Error err))
                                  in if \<not> r_hasStopped r1 \<and> \<not> r_isStopping r1
                                     then (r1\<lparr>r_fileReaders :=
                                               AList.update rp (fst (Start (others e) ar2)) (r_fileReaders r1)\<rparr>,
                                           errChan)
                                     else (r1, errChan)))))))"

definition statLogPath :: "env \<Rightarrow> Reader \<Rightarrow> error chan \<Rightarrow> Reader \<times> error chan" where
  "statLogPath e r errChan =
     (if int (length (r_fileReaders r)) \<ge> r_maxOpenFiles r then (r, errChan)
      else
        (case Glob e (r_logPathPattern r) of
           Inl err \<Rightarrow>
             (r_setStatsError r (''Runner['' @ RunnerName (r_meta r)
                 @ ''] stat logPathPattern error '' @ Error err), errChan)
         | Inr matches \<Rightarrow>
             (case (if r_ignoreLogPathPattern r \<noteq> []
                    then Glob e (r_ignoreLogPathPattern r) else Inr []) of
                Inl err \<Rightarrow>
                  (r_setStatsError r (''Runner['' @ RunnerName (r_meta r)
                      @ ''] stat ignoreLogPathPattern error '' @ Error err), errChan)
              | Inr unmatches \<Rightarrow>
                  (case fold (statLogPath_match e unmatches) matches (r, errChan) of
                     (r1, errChan1) \<Rightarrow> (r1\<lparr>r_notFirstTime := True\<rparr>, errChan1)))))"

text \<open>One tick of the discovery goroutine of \<open>Reader.Start\<close>.\<close>

definition tick :: "env \<Rightarrow> Reader \<times> error chan \<Rightarrow> Reader \<times> error chan" where
  "tick e acc =
     (case acc of (r, errChan) \<Rightarrow> statLogPath e (fst (checkExpiredFiles e r)) errChan)"

text \<open>
  \<open>ReadLine\<close>: the case of the \<open>select\<close> that fires is an argument. A receive from the
  error channel yields \<open>nil\<close> when the channel is closed.
\<close>

datatype select_recv = MsgChan Result | ErrChan "error option" | Timer

definition ReadLine :: "Reader \<Rightarrow> select_recv \<Rightarrow> Reader \<times> string \<times> error option" where
  "ReadLine r sel =
     (case sel of
        MsgChan msg \<Rightarrow> (r\<lparr>r_currentFile := logpath msg\<rparr>, result msg, None)
      | ErrChan err \<Rightarrow> (r, [], err)
      | Timer \<Rightarrow> (r, [], None))"

subsection \<open>Example inputs\<close>

definition meta0 :: Meta where
  "meta0 = \<lparr> RunnerName = ''runner'', IsStatisticFileExist = False \<rparr>"

definition logs0 :: "string list" where
  "logs0 = [''/logs/a.log'', ''/logs/b.log'', ''/logs/c.log'', ''/logs/d.log'']"

text \<open>
  Four regular files under \<open>/logs\<close>, last written 10 ns before \<open>now\<close>, none with a submeta
  yet; every external call succeeds and no other goroutine touches a follower's status.
\<close>

definition env0 :: env where
  "env0 = \<lparr> now = 100000,
             os_Stat = (\<lambda>p. if p \<in> set logs0 then Inr \<lparr> IsDir = False, ModTime = 99990 \<rparr>
                             else Inl ErrNotExist),
             GetRealPath = (\<lambda>p. if p \<in> set logs0 then Inr (p, \<lparr> IsDir = False, ModTime = 99990 \<rparr>)
                                 else Inl ErrNotExist),
             Glob = (\<lambda>pat. if pat = ''/logs/*.log'' then Inr logs0 else Inr []),
             IsFileModified = (\<lambda>p. False),
             NewMetaWithRunnerName = (\<lambda>p. Inr \<lparr> IsNotExist = True \<rparr>),
             NewSingleFile = (\<lambda>p w. None),
             NewReaderSize = (\<lambda>p. None),
             br_SetMode = (\<lambda>p re. None),
             br_Close = (\<lambda>p. Some (Errorf ''close failed'')),
             AddSubMeta = (\<lambda>p. None),
             ParseDuration = (\<lambda>d. if d = ''24h'' then Inr 86400000000000
                                   else if d = ''720h'' then Inr 2592000000000000
                                   else if d = ''1h'' then Inr 3600000000000
                                   else if d = ''3m'' then Inr 180000000000
                                   else if d = ''0'' then Inr 0
                                   else Inl (Errorf ''invalid duration'')),
             Atoi = (\<lambda>d. if d = ''2'' then Some 2 else None),
             ReadBufMeta = Inl ErrNotExist,
             ReadBuf = Inl ErrNotExist,
             Unmarshal = (\<lambda>buf. []),
             others = (\<lambda>k st. st) \<rparr>"

text \<open>The same, at a time when the glob matches \<open>/logs/a.log\<close> only.\<close>

definition env1 :: env where
  "env1 = env0\<lparr> Glob := (\<lambda>pat. if pat = ''/logs/*.log'' then Inr [''/logs/a.log''] else Inr []) \<rparr>"

text \<open>The same, after \<open>/logs/a.log\<close> has been removed.\<close>

definition env_gone :: env where
  "env_gone = env0\<lparr> os_Stat := (\<lambda>p. Inl ErrNotExist) \<rparr>"

text \<open>The same, when every path already has a submeta from an earlier run.\<close>

definition env_resumed :: env where
  "env_resumed = env0\<lparr> NewMetaWithRunnerName := (\<lambda>p. Inr \<lparr> IsNotExist = False \<rparr>) \<rparr>"

definition ar0 :: ActiveReader where
  "ar0 = \<lparr> ar_br = \<lparr> br_path = ''/logs/a.log'', br_whence = ''newest'',
                      br_Meta = \<lparr> IsNotExist = True \<rparr>, br_mode = None, br_closed = False \<rparr>,
            ar_realpath = ''/logs/a.log'',
            ar_originpath = ''/logs/a.log'',
            ar_readcache = [],
            ar_status = StatusInit,
            ar_inactive = 1,
            ar_runnerName = ''runner'',
            ar_emptyLineCnt = 0,
            ar_stats = \<lparr> LastError = [] \<rparr> \<rparr>"

definition ch0 :: "error chan" where
  "ch0 = \<lparr> ch_closed = False, ch_sent = [] \<rparr>"

definition conf0 :: MapConf where
  "conf0 = [KeyLogPath \<mapsto> ''/logs/*.log'', KeyMaxOpenFiles \<mapsto> ''2'']"

text \<open>A follower in its reading loop that has just delivered a line.\<close>

definition rs0 :: run_state where
  "rs0 = \<lparr> rs_ar = ar0\<lparr> ar_status := StatusRunning, ar_inactive := 0 \<rparr>,
            rs_msgchan = [], rs_errChan = ch0, rs_clock = 0 \<rparr>"

definition conf_short_submeta :: MapConf where
  "conf_short_submeta = conf0(KeySubmetaExpire \<mapsto> ''1h'')"

section \<open>Properties\<close>

subsection \<open>Helper lemmas\<close>

lemma Stop_wait_bound: "snd (Stop_wait oth cnt st) \<le> max cnt 3"
proof (induction oth cnt st rule: Stop_wait.induct)
  case (1 oth cnt st)
  show ?case
  proof (cases "st \<noteq> StatusStopped \<and> \<not> cnt + 1 > 3")
    case True
    with "1.IH" have "snd (Stop_wait oth (cnt + 1) (oth (cnt + 1) st)) \<le> max (cnt + 1) 3"
      by simp
    with True show ?thesis by (subst Stop_wait.simps) simp
  next
    case False
    then show ?thesis by (subst Stop_wait.simps) auto
  qed
qed

lemma Stop_sleeps_at_most_3: "snd (snd (Stop oth ar)) \<le> 3"
proof -
  have "snd (Stop_wait oth 0 st) \<le> 3" for st
    using Stop_wait_bound [of oth 0 st] by simp
  then show ?thesis
    by (simp add: Stop_def Let_def case_prod_beta)
qed

lemma Run_Stop_keeps:
  "ar_inactive (rs_ar (Run_Stop oth rs)) = ar_inactive (rs_ar rs) \<and>
   ar_emptyLineCnt (rs_ar (Run_Stop oth rs)) = ar_emptyLineCnt (rs_ar rs) \<and>
   rs_msgchan (Run_Stop oth rs) = rs_msgchan rs \<and>
   rs_clock (Run_Stop oth rs) \<le> rs_clock rs + 3"
proof -
  have "snd (snd (Stop (\<lambda>j. oth (rs_clock rs + j)) (rs_ar rs))) \<le> 3"
    by (rule Stop_sleeps_at_most_3)
  then show ?thesis
    by (auto simp: Run_Stop_def Stop_def Let_def split: prod.splits if_splits)
qed

lemma Stop_wait_undisturbed:
  assumes "\<And>k. oth k StatusStopping = StatusStopping"
  shows "Stop_wait oth cnt StatusStopping = (StatusStopping, max cnt 3)"
proof (induction "3 - cnt" arbitrary: cnt)
  case 0
  then show ?case by (subst Stop_wait.simps) auto
next
  case (Suc n)
  then have "3 - (cnt + 1) = n" and "cnt < 3" by simp_all
  with Suc.hyps(1) [of "cnt + 1"] assms show ?case
    by (subst Stop_wait.simps) (simp add: max_def)
qed

lemma Stop_never_advances:
  assumes "ar_status ar = StatusStopping" and "\<And>k. oth k StatusStopping = StatusStopping"
  shows "Stop oth ar = (ar, None, 3)"
  using assms Stop_wait_undisturbed [of oth 0]
  by (simp add: Stop_def)

lemma statLogPath_marks_first_pass:
  assumes "int (length (r_fileReaders r)) < r_maxOpenFiles r"
      and "Glob e (r_logPathPattern r) = Inr matches"
      and "r_ignoreLogPathPattern r = []"
  shows "r_notFirstTime (fst (statLogPath e r errChan))"
  using assms by (simp add: statLogPath_def split: prod.splits)

lemma statLogPath_at_limit:
  "r_maxOpenFiles r \<le> int (length (r_fileReaders r)) \<Longrightarrow> statLogPath e r errChan = (r, errChan)"
  by (simp add: statLogPath_def)

lemma checkExpiredFiles_fold_shrinks:
  "length (r_fileReaders (fst (fold (checkExpiredFiles_entry e) entries (r, closedars))))
     \<le> length (r_fileReaders r)"
proof (induction entries arbitrary: r closedars)
  case Nil
  show ?case by simp
next
  case (Cons entry entries)
  obtain path ar where entry: "entry = (path, ar)" by (cases entry)
  show ?case
  proof (cases "expired e ar (r_expire r)")
    case True
    have "length (AList.delete path (r_fileReaders r)) \<le> length (r_fileReaders r)"
      by (simp add: AList.delete_eq)
    with Cons.IH [of "r\<lparr> r_fileReaders := AList.delete path (r_fileReaders r),
                          r_cacheMap := AList.delete path (r_cacheMap r) \<rparr>"
                     "closedars @ [fst (Close e ar)]"]
    show ?thesis using True entry
      by (simp add: checkExpiredFiles_entry_def)
  next
    case False
    with Cons.IH [of r closedars] entry show ?thesis
      by (simp add: checkExpiredFiles_entry_def)
  qed
qed

lemma checkExpiredFiles_shrinks:
  "length (r_fileReaders (fst (checkExpiredFiles e r))) \<le> length (r_fileReaders r)"
  unfolding checkExpiredFiles_def by (rule checkExpiredFiles_fold_shrinks)

subsection \<open>The cap on open followers\<close>

text \<open>
  C1: the claim is that after any sequence of discovery ticks the number of followers in
  \<open>fileReaders\<close> is at most \<open>max_open_files\<close>, and that a pass of \<open>statLogPath\<close> starting one
  below the cap registers at most one new follower. The code compares the size of the map
  with \<open>maxOpenFiles\<close> once, on entry to \<open>statLogPath\<close> (\<open>statLogPath_at_limit\<close>), and not
  again inside the loop over the matches. For an engine built with \<open>max_open_files = 2\<close>
  and started, a first tick that finds one file leaves one follower, and a second tick
  that finds three more files registers all three: four followers against a cap of two.
\<close>

theorem tick_exceeds_maxOpenFiles:
  "(case NewReader env0 meta0 conf0 of
      Inl err \<Rightarrow> False
    | Inr r \<Rightarrow>
        (case r_Start r of (r1, err, launched) \<Rightarrow>
           launched \<and> r_maxOpenFiles r1 = 2 \<and>
           map fst (r_fileReaders (fst (tick env1 (r1, ch0)))) = [''/logs/a.log''] \<and>
           map fst (r_fileReaders (fst (tick env0 (tick env1 (r1, ch0))))) = logs0 \<and>
           length logs0 = 4))"
  by (simp add: NewReader_def GetString_def GetStringOr_def GetIntOr_def conf0_def env0_def env1_def
      meta0_def ch0_def logs0_def KeyLogPath_def KeyIgnoreLogPath_def KeyWhence_def KeyExpire_def
      KeySubmetaExpire_def KeyStatInterval_def KeyMaxOpenFiles_def IsSubmetaExpireValid_def
      TrimSpace_def r_Start_def r_isStopping_def r_hasStopped_def tick_def checkExpiredFiles_def
      checkExpiredFiles_entry_def statLogPath_def statLogPath_match_def NewActiveReader_def
      Start_def expired_def Let_def WhenceOldest_def)

subsection \<open>Empty reads in the reading loop\<close>

text \<open>
  C2, as the code has it: in an iteration of the reading loop in which \<open>ReadLine\<close> returns
  an empty line and no error, \<open>emptyLineCnt\<close> is incremented; when the incremented counter
  is greater than 3 (the fourth miss in a row) the follower sets \<open>inactive\<close> to 1, calls
  \<open>Stop\<close> and \<open>Run\<close> returns; while the incremented counter is at most 3 the follower sleeps
  one second and goes to the next iteration.
\<close>

theorem Run_empty_read:
  assumes "ar_status (rs_ar rs) = StatusRunning" and "ar_readcache (rs_ar rs) = []"
  shows "Run_loop oth rs (([], None) # reads) sels =
           (if 3 < ar_emptyLineCnt (rs_ar rs) + 1
            then Some (Run_Stop oth
                   (rs\<lparr>rs_ar := (rs_ar rs)\<lparr>ar_emptyLineCnt := ar_emptyLineCnt (rs_ar rs) + 1,
                                               ar_inactive := 1\<rparr>\<rparr>))
            else Run_loop oth
                   (rs\<lparr>rs_ar := (rs_ar rs)\<lparr>ar_emptyLineCnt := ar_emptyLineCnt (rs_ar rs) + 1,
                                               ar_status := oth (rs_clock rs + 1) StatusRunning\<rparr>,
                        rs_clock := rs_clock rs + 1\<rparr>) reads sels) \<and>
         (3 < ar_emptyLineCnt (rs_ar rs) + 1 \<longrightarrow>
            (\<exists>rs1. Run_loop oth rs (([], None) # reads) sels = Some rs1 \<and>
                   ar_inactive (rs_ar rs1) = 1 \<and>
                   ar_emptyLineCnt (rs_ar rs1) = ar_emptyLineCnt (rs_ar rs) + 1))"
proof -
  have same: "(rs_ar rs)\<lparr>ar_readcache := []\<rparr> = rs_ar rs"
    using assms(2) by simp
  have step: "Run_loop oth rs (([], None) # reads) sels =
           (if 3 < ar_emptyLineCnt (rs_ar rs) + 1
            then Some (Run_Stop oth
                   (rs\<lparr>rs_ar := (rs_ar rs)\<lparr>ar_emptyLineCnt := ar_emptyLineCnt (rs_ar rs) + 1,
                                               ar_inactive := 1\<rparr>\<rparr>))
            else Run_loop oth
                   (rs\<lparr>rs_ar := (rs_ar rs)\<lparr>ar_emptyLineCnt := ar_emptyLineCnt (rs_ar rs) + 1,
                                               ar_status := oth (rs_clock rs + 1) StatusRunning\<rparr>,
                        rs_clock := rs_clock rs + 1\<rparr>) reads sels)"
    using assms
    by (subst Run_loop.simps) (simp add: Run_fetch_def Let_def same)
  show ?thesis
    using step by (simp add: Run_Stop_keeps)
qed

theorem Run_empty_read_witness:
  "ar_status (rs_ar rs0) = StatusRunning \<and> ar_readcache (rs_ar rs0) = [] \<and>
   ar_emptyLineCnt (rs_ar rs0) = 0 \<and>
   Run_loop (others env0) rs0 [([], None), ([], None), ([], None), ([], None)] [] =
     Some \<lparr> rs_ar = ar0\<lparr> ar_status := StatusStopping, ar_inactive := 1, ar_emptyLineCnt := 4 \<rparr>,
            rs_msgchan = [], rs_errChan = ch0, rs_clock = 6 \<rparr>"
  by (simp add: Run_empty_read [THEN conjunct1] rs0_def ar0_def ch0_def env0_def
      Run_Stop_def Stop_def Stop_wait.simps)

text \<open>
  The claim as written has the follower stop as soon as the count of consecutive misses
  reaches 3. A follower that has just delivered a line (counter 0, \<open>inactive = 0\<close>) and
  then reads three empty lines in a row is still reading: the fourth read returns the
  line \<open>x\<close>, which this same \<open>Run\<close> delivers on \<open>msgchan\<close> before the end of file stops it.
\<close>

theorem Run_three_misses_counterexample:
  "Run_loop (others env0) rs0
     [([], None), ([], None), ([], None), (''x'', None), ([], Some EOF)] [Sent] =
     Some \<lparr> rs_ar = ar0\<lparr> ar_status := StatusStopping, ar_inactive := 1, ar_emptyLineCnt := 1 \<rparr>,
            rs_msgchan = [\<lparr> result = ''x'', logpath = ''/logs/a.log'' \<rparr>],
            rs_errChan = ch0, rs_clock = 7 \<rparr>"
  by (simp add: Run_loop.simps Run_deliver.simps Run_fetch_def Run_Stop_def Stop_def
      Stop_wait.simps rs0_def ar0_def ch0_def env0_def Let_def)

subsection \<open>Expiry of a follower\<close>

text \<open>
  C3, as the code has it: \<open>expired(expire)\<close> is false when \<open>expire\<close> is 0, whatever \<open>stat\<close>
  would return; for \<open>expire > 0\<close> it is true when \<open>stat\<close> fails with a not-exist error,
  false on any other \<open>stat\<close> error, and otherwise true exactly when
  \<open>mtime + expire < now\<close> and \<open>inactive\<close> is 1 (\<open>inactive\<close> being 0 or 1).
\<close>

theorem expired_amended:
  assumes "0 \<le> x" and "ar_inactive ar = 0 \<or> ar_inactive ar = 1"
  shows "expired e ar x =
           (0 < x \<and>
            (case os_Stat e (ar_realpath ar) of
               Inl err \<Rightarrow> os_IsNotExist err
             | Inr fi \<Rightarrow> ModTime fi + x < now e \<and> ar_inactive ar = 1))"
  using assms by (auto simp: expired_def split: sum.splits)

theorem expired_amended_witness:
  "(0::int) \<le> 5 \<and> (ar_inactive ar0 = 0 \<or> ar_inactive ar0 = 1) \<and> expired env0 ar0 5 \<and>
   expired env_gone ar0 5 \<and> \<not> expired env_gone ar0 0"
proof -
  have inact: "ar_inactive ar0 = 0 \<or> ar_inactive ar0 = 1" by (simp add: ar0_def)
  have a: "expired env0 ar0 5"
    using expired_amended [of 5 ar0 env0] inact
    by (simp add: env0_def ar0_def logs0_def)
  have b: "expired env_gone ar0 5"
    using expired_amended [of 5 ar0 env_gone] inact
    by (simp add: env_gone_def env0_def os_IsNotExist_def)
  have c: "\<not> expired env_gone ar0 0"
    using expired_amended [of 0 ar0 env_gone] inact by simp
  from inact a b c show ?thesis by simp
qed

text \<open>
  The claim as written makes \<open>expired\<close> true whenever \<open>stat\<close> fails with a not-exist
  error. With \<open>expire = 0\<close> the code returns false before it calls \<open>stat\<close>.
\<close>

theorem expired_counterexample:
  "os_Stat env_gone (ar_realpath ar0) = Inl ErrNotExist \<and> os_IsNotExist ErrNotExist \<and>
   \<not> expired env_gone ar0 0"
  by (simp add: env_gone_def env0_def expired_def os_IsNotExist_def)

subsection \<open>Whence of a new follower\<close>

text \<open>
  C4, as the code has it: when a follower is constructed for a path with no prior submeta,
  the configured whence is applied verbatim if and only if \<open>notFirstTime\<close> is false and no
  statistics file exists; in every other creation of such a brand-new path
  (\<open>notFirstTime\<close> is true or a statistics file exists) the whence is forced to \<open>oldest\<close>.
  For a path that has a submeta already, \<open>NewActiveReader\<close> passes the configured whence
  on unchanged, on any pass.
\<close>

theorem whence_rule:
  assumes "NewActiveReader e originPath realPath w nft meta = Inr ar"
      and "NewMetaWithRunnerName e realPath = Inr subMeta"
  shows "br_whence (ar_br ar) =
           (if IsNotExist subMeta
            then (if \<not> nft \<and> \<not> IsStatisticFileExist meta then w else WhenceOldest)
            else w)"
  using assms
  by (auto simp: NewActiveReader_def Let_def split: sum.splits option.splits)

theorem whence_rule_witness:
  "NewActiveReader env0 ''/logs/a.log'' ''/logs/a.log'' ''newest'' False meta0 = Inr ar0 \<and>
   NewMetaWithRunnerName env0 ''/logs/a.log'' = Inr \<lparr> IsNotExist = True \<rparr> \<and>
   br_whence (ar_br ar0) = ''newest'' \<and>
   NewActiveReader env0 ''/logs/a.log'' ''/logs/a.log'' ''newest'' True meta0 =
     Inr (ar0\<lparr>ar_br := (ar_br ar0)\<lparr>br_whence := ''oldest''\<rparr>\<rparr>) \<and>
   br_whence (ar_br (ar0\<lparr>ar_br := (ar_br ar0)\<lparr>br_whence := ''oldest''\<rparr>\<rparr>)) = WhenceOldest \<and>
   NewActiveReader env_resumed ''/logs/a.log'' ''/logs/a.log'' ''newest'' True meta0 =
     Inr (ar0\<lparr>ar_br := (ar_br ar0)\<lparr>br_Meta := \<lparr> IsNotExist = False \<rparr>\<rparr>\<rparr>) \<and>
   NewMetaWithRunnerName env_resumed ''/logs/a.log'' = Inr \<lparr> IsNotExist = False \<rparr> \<and>
   br_whence (ar_br (ar0\<lparr>ar_br := (ar_br ar0)\<lparr>br_Meta := \<lparr> IsNotExist = False \<rparr>\<rparr>\<rparr>)) = ''newest''"
proof -
  have first: "NewActiveReader env0 ''/logs/a.log'' ''/logs/a.log'' ''newest'' False meta0 = Inr ar0"
    by (simp add: NewActiveReader_def env0_def meta0_def ar0_def)
  have later: "NewActiveReader env0 ''/logs/a.log'' ''/logs/a.log'' ''newest'' True meta0 =
                 Inr (ar0\<lparr>ar_br := (ar_br ar0)\<lparr>br_whence := ''oldest''\<rparr>\<rparr>)"
    by (simp add: NewActiveReader_def env0_def meta0_def ar0_def WhenceOldest_def)
  have resumed: "NewActiveReader env_resumed ''/logs/a.log'' ''/logs/a.log'' ''newest'' True meta0 =
                 Inr (ar0\<lparr>ar_br := (ar_br ar0)\<lparr>br_Meta := \<lparr> IsNotExist = False \<rparr>\<rparr>\<rparr>)"
    by (simp add: NewActiveReader_def env_resumed_def env0_def meta0_def ar0_def)
  have sub: "NewMetaWithRunnerName env0 ''/logs/a.log'' = Inr \<lparr> IsNotExist = True \<rparr>"
    by (simp add: env0_def)
  have sub_resumed: "NewMetaWithRunnerName env_resumed ''/logs/a.log'' = Inr \<lparr> IsNotExist = False \<rparr>"
    by (simp add: env_resumed_def env0_def)
  from whence_rule [OF first sub] whence_rule [OF later sub] whence_rule [OF resumed sub_resumed]
    first later resumed sub sub_resumed
  show ?thesis by (simp add: meta0_def)
qed

text \<open>
  The claim as written has the configured whence applied verbatim only for a path with
  no prior submeta on the first pass. On a later pass (\<open>notFirstTime\<close> true), for a path
  whose submeta exists, the follower is opened with the configured \<open>newest\<close>, not \<open>oldest\<close>.
\<close>

theorem whence_counterexample:
  "NewMetaWithRunnerName env_resumed ''/logs/a.log'' = Inr \<lparr> IsNotExist = False \<rparr> \<and>
   NewActiveReader env_resumed ''/logs/a.log'' ''/logs/a.log'' ''newest'' True meta0 =
     Inr (ar0\<lparr>ar_br := (ar_br ar0)\<lparr>br_Meta := \<lparr> IsNotExist = False \<rparr>\<rparr>\<rparr>) \<and>
   br_whence (ar_br (ar0\<lparr>ar_br := (ar_br ar0)\<lparr>br_Meta := \<lparr> IsNotExist = False \<rparr>\<rparr>\<rparr>)) = ''newest'' \<and>
   ''newest'' \<noteq> WhenceOldest"
  by (simp add: NewActiveReader_def env_resumed_def env0_def meta0_def ar0_def WhenceOldest_def)

subsection \<open>Errors of a stopping follower\<close>

text \<open>
  C5, as the code has it: when the follower is in the state Stopping or Stopped,
  \<open>sendError\<close> returns after the assignment to its local \<open>err\<close> and sends nothing on the
  error channel.
\<close>

theorem sendError_returns_early:
  assumes "isStopping ar \<or> hasStopped ar"
  shows "sendError ar err errChan = errChan"
  using assms by (simp add: sendError_def split: option.splits)

theorem sendError_returns_early_witness:
  "(isStopping (ar0\<lparr>ar_status := StatusStopped\<rparr>) \<or> hasStopped (ar0\<lparr>ar_status := StatusStopped\<rparr>)) \<and>
   sendError (ar0\<lparr>ar_status := StatusStopped\<rparr>) (Some EOF) ch0 = ch0 \<and>
   sendError ar0 (Some EOF) ch0 = \<lparr> ch_closed = False, ch_sent = [EOF] \<rparr>"
proof -
  have st: "isStopping (ar0\<lparr>ar_status := StatusStopped\<rparr>) \<or> hasStopped (ar0\<lparr>ar_status := StatusStopped\<rparr>)"
    by (simp add: hasStopped_def)
  have live: "sendError ar0 (Some EOF) ch0 = \<lparr> ch_closed = False, ch_sent = [EOF] \<rparr>"
    by (simp add: sendError_def isStopping_def hasStopped_def ar0_def ch0_def)
  from sendError_returns_early [OF st] st live show ?thesis by simp
qed

text \<open>
  The claim as written has the send on \<open>errChan\<close> still performed for some error when the
  follower is stopping or stopped. With a non-nil error and an open channel, nothing is
  sent in either state.
\<close>

theorem sendError_counterexample:
  "isStopping (ar0\<lparr>ar_status := StatusStopping\<rparr>) \<and>
   sendError (ar0\<lparr>ar_status := StatusStopping\<rparr>) (Some (Errorf ''read failed'')) ch0 = ch0 \<and>
   hasStopped (ar0\<lparr>ar_status := StatusStopped\<rparr>) \<and>
   sendError (ar0\<lparr>ar_status := StatusStopped\<rparr>) (Some (Errorf ''read failed'')) ch0 = ch0"
  by (simp add: sendError_def isStopping_def hasStopped_def ar0_def)

subsection \<open>Stopping a follower\<close>

text \<open>
  C6: the claim is that \<open>Stop\<close>, called on a follower in the state Stopping, waits at most
  3 seconds for the state Stopped and then itself advances the status to Stopped. The
  wait is bounded by three sleeps of one second (\<open>Stop_sleeps_at_most_3\<close>), but after
  the loop \<open>Stop\<close> returns \<open>nil\<close> without touching the status: when no other goroutine
  changes it, the follower is still Stopping when \<open>Stop\<close> returns.
\<close>

theorem Stop_from_Stopping_leaves_Stopping:
  "Stop (others env0) (ar0\<lparr>ar_status := StatusStopping\<rparr>) =
     (ar0\<lparr>ar_status := StatusStopping\<rparr>, None, 3)"
  by (simp add: Stop_def env0_def ar0_def Stop_wait.simps)

subsection \<open>Reading a line from the engine\<close>

text \<open>
  C7: \<open>ReadLine\<close> selects among the result channel, the error channel and a timer of one
  second. When a message is received it sets \<open>currentFile\<close> to the path of the message and
  returns its line with no error; when an error is received it returns the empty line
  with the error and leaves \<open>currentFile\<close> as it was; when the timer fires it returns the
  empty line with no error.
\<close>

theorem ReadLine_select:
  "ReadLine r (MsgChan msg) = (r\<lparr>r_currentFile := logpath msg\<rparr>, result msg, None) \<and>
   ReadLine r (ErrChan err) = (r, [], err) \<and>
   r_currentFile (fst (ReadLine r (ErrChan err))) = r_currentFile r \<and>
   ReadLine r Timer = (r, [], None)"
  by (simp add: ReadLine_def)

subsection \<open>Construction of the engine\<close>

text \<open>
  C8: for a configuration that has the log path and whose three durations parse,
  \<open>NewReader\<close> fails, with the configuration error on \<open>submeta_expire\<close>, if and only if
  \<open>submeta_expire\<close> is nonzero and less than \<open>expire\<close>; it builds the engine if and only
  if \<open>submeta_expire\<close> is 0 or at least \<open>expire\<close>.
\<close>

theorem NewReader_submeta_expire:
  assumes "GetString conf KeyLogPath = Inr lp"
      and "ParseDuration e (GetStringOr conf KeyExpire ''24h'') = Inr ex"
      and "ParseDuration e (GetStringOr conf KeySubmetaExpire ''720h'') = Inr sub"
      and "ParseDuration e (GetStringOr conf KeyStatInterval ''3m'') = Inr si"
  shows "((\<exists>err. NewReader e meta conf = Inl err) = (sub \<noteq> 0 \<and> sub < ex)) \<and>
         ((\<exists>r. NewReader e meta conf = Inr r \<and> r_expire r = ex \<and> r_submetaExpire r = sub)
            = (sub = 0 \<or> ex \<le> sub)) \<and>
         (sub \<noteq> 0 \<and> sub < ex \<longrightarrow>
            NewReader e meta conf =
              Inl (Errorf (CHR 0x22 # KeySubmetaExpire @ CHR 0x22 # '' valus is less than ''
                     @ CHR 0x22 # KeyExpire @ [CHR 0x22])))"
  using assms
  by (auto simp: NewReader_def Let_def IsSubmetaExpireValid_def split: sum.splits)

theorem NewReader_submeta_expire_witness:
  "GetString conf0 KeyLogPath = Inr ''/logs/*.log'' \<and>
   ParseDuration env0 (GetStringOr conf0 KeyExpire ''24h'') = Inr 86400000000000 \<and>
   ParseDuration env0 (GetStringOr conf0 KeySubmetaExpire ''720h'') = Inr 2592000000000000 \<and>
   ParseDuration env0 (GetStringOr conf0 KeyStatInterval ''3m'') = Inr 180000000000 \<and>
   (\<exists>r. NewReader env0 meta0 conf0 = Inr r) \<and>
   GetString conf_short_submeta KeyLogPath = Inr ''/logs/*.log'' \<and>
   ParseDuration env0 (GetStringOr conf_short_submeta KeyExpire ''24h'') = Inr 86400000000000 \<and>
   ParseDuration env0 (GetStringOr conf_short_submeta KeySubmetaExpire ''720h'') = Inr 3600000000000 \<and>
   ParseDuration env0 (GetStringOr conf_short_submeta KeyStatInterval ''3m'') = Inr 180000000000 \<and>
   (\<exists>err. NewReader env0 meta0 conf_short_submeta = Inl err)"
proof -
  note keys = KeyLogPath_def KeyExpire_def KeySubmetaExpire_def KeyStatInterval_def
    KeyMaxOpenFiles_def
  have a1: "GetString conf0 KeyLogPath = Inr ''/logs/*.log''"
    by (simp add: GetString_def conf0_def keys)
  have a2: "ParseDuration env0 (GetStringOr conf0 KeyExpire ''24h'') = Inr 86400000000000"
    by (simp add: GetStringOr_def conf0_def env0_def keys)
  have a3: "ParseDuration env0 (GetStringOr conf0 KeySubmetaExpire ''720h'') = Inr 2592000000000000"
    by (simp add: GetStringOr_def conf0_def env0_def keys)
  have a4: "ParseDuration env0 (GetStringOr conf0 KeyStatInterval ''3m'') = Inr 180000000000"
    by (simp add: GetStringOr_def conf0_def env0_def keys)
  have b1: "GetString conf_short_submeta KeyLogPath = Inr ''/logs/*.log''"
    by (simp add: GetString_def conf_short_submeta_def conf0_def keys)
  have b2: "ParseDuration env0 (GetStringOr conf_short_submeta KeyExpire ''24h'') = Inr 86400000000000"
    by (simp add: GetStringOr_def conf_short_submeta_def conf0_def env0_def keys)
  have b3: "ParseDuration env0 (GetStringOr conf_short_submeta KeySubmetaExpire ''720h'') = Inr 3600000000000"
    by (simp add: GetStringOr_def conf_short_submeta_def conf0_def env0_def keys)
  have b4: "ParseDuration env0 (GetStringOr conf_short_submeta KeyStatInterval ''3m'') = Inr 180000000000"
    by (simp add: GetStringOr_def conf_short_submeta_def conf0_def env0_def keys)
  from NewReader_submeta_expire [OF a1 a2 a3 a4, of meta0]
  have ok: "\<exists>r. NewReader env0 meta0 conf0 = Inr r" by auto
  from NewReader_submeta_expire [OF b1 b2 b3 b4, of meta0]
  have bad: "\<exists>err. NewReader env0 meta0 conf_short_submeta = Inl err" by simp
  from a1 a2 a3 a4 b1 b2 b3 b4 ok bad show ?thesis by simp
qed

subsection \<open>Closing a follower\<close>

text \<open>
  C9: \<open>ActiveReader.Close\<close> closes the LineBuffer first. It returns the error of that
  close only when the call of \<open>Stop\<close> that follows returns an error; whenever \<open>Stop\<close>
  returns \<open>nil\<close>, as it does for a follower that is already Stopped, \<open>Close\<close> returns \<open>nil\<close>,
  even if closing the LineBuffer failed.
\<close>

theorem Close_returns_br_error_only_if_Stop_fails:
  "br_closed (ar_br (fst (Close e ar))) \<and>
   (fst (snd (Stop (others e) ar)) \<noteq> None \<longrightarrow>
      snd (Close e ar) = br_Close e (br_path (ar_br ar))) \<and>
   (fst (snd (Stop (others e) ar)) = None \<longrightarrow> snd (Close e ar) = None) \<and>
   (ar_status ar = StatusStopped \<longrightarrow> fst (snd (Stop (others e) ar)) = None)"
  by (auto simp: Close_def Stop_def Let_def split: prod.splits option.splits if_splits)

theorem Close_witness:
  "fst (snd (Stop (others env0) ar0)) \<noteq> None \<and>
   snd (Close env0 ar0) = Some (Errorf ''close failed'') \<and>
   br_closed (ar_br (fst (Close env0 ar0))) \<and>
   ar_status (ar0\<lparr>ar_status := StatusStopped\<rparr>) = StatusStopped \<and>
   fst (snd (Stop (others env0) (ar0\<lparr>ar_status := StatusStopped\<rparr>))) = None \<and>
   br_Close env0 (br_path (ar_br (ar0\<lparr>ar_status := StatusStopped\<rparr>))) = Some (Errorf ''close failed'') \<and>
   snd (Close env0 (ar0\<lparr>ar_status := StatusStopped\<rparr>)) = None"
proof -
  have fails: "fst (snd (Stop (others env0) ar0)) \<noteq> None"
    by (simp add: Stop_def ar0_def)
  have stopped: "ar_status (ar0\<lparr>ar_status := StatusStopped\<rparr>) = StatusStopped"
    by simp
  have brerr: "br_Close env0 (br_path (ar_br ar0)) = Some (Errorf ''close failed'')"
    by (simp add: env0_def)
  note c1 = Close_returns_br_error_only_if_Stop_fails [of env0 ar0]
  note c2 = Close_returns_br_error_only_if_Stop_fails [of env0 "ar0\<lparr>ar_status := StatusStopped\<rparr>"]
  from c1 fails brerr have r1: "snd (Close env0 ar0) = Some (Errorf ''close failed'')" by simp
  from c2 stopped have r2: "fst (snd (Stop (others env0) (ar0\<lparr>ar_status := StatusStopped\<rparr>))) = None"
    by blast
  with c2 have r3: "snd (Close env0 (ar0\<lparr>ar_status := StatusStopped\<rparr>)) = None" by blast
  from c1 have r4: "br_closed (ar_br (fst (Close env0 ar0)))" by blast
  from fails r1 r2 r3 r4 brerr show ?thesis by simp
qed

subsection \<open>A new follower\<close>

text \<open>
  C10: a follower that \<open>NewActiveReader\<close> has just built has \<open>inactive = 1\<close>,
  \<open>emptyLineCnt = 0\<close> and status Init; so \<open>expired\<close> is already true for it, before any read,
  when \<open>expire > 0\<close> and the modification time of its file is older than \<open>now - expire\<close>.
\<close>

theorem new_follower_inactive_and_expirable:
  assumes "NewActiveReader e originPath realPath w nft meta = Inr ar"
  shows "ar_inactive ar = 1 \<and> ar_emptyLineCnt ar = 0 \<and> ar_status ar = StatusInit \<and>
         (\<forall>e2 fi x. 0 < x \<and> os_Stat e2 (ar_realpath ar) = Inr fi \<and>
              ModTime fi < now e2 - x \<longrightarrow> expired e2 ar x)"
  using assms
  by (auto simp: NewActiveReader_def expired_def Let_def
           split: sum.splits option.splits)

theorem new_follower_witness:
  "NewActiveReader env0 ''/logs/a.log'' ''/logs/a.log'' ''newest'' False meta0 = Inr ar0 \<and>
   ar_inactive ar0 = 1 \<and> ar_emptyLineCnt ar0 = 0 \<and> ar_status ar0 = StatusInit \<and>
   (0::int) < 5 \<and> os_Stat env0 (ar_realpath ar0) = Inr \<lparr> IsDir = False, ModTime = 99990 \<rparr> \<and>
   ModTime \<lparr> IsDir = False, ModTime = 99990 \<rparr> < now env0 - 5 \<and> expired env0 ar0 5"
proof -
  have built: "NewActiveReader env0 ''/logs/a.log'' ''/logs/a.log'' ''newest'' False meta0 = Inr ar0"
    by (simp add: NewActiveReader_def env0_def meta0_def ar0_def)
  have stat: "os_Stat env0 (ar_realpath ar0) = Inr \<lparr> IsDir = False, ModTime = 99990 \<rparr>"
    by (simp add: env0_def ar0_def logs0_def)
  have old: "ModTime \<lparr> IsDir = False, ModTime = 99990 \<rparr> < now env0 - 5"
    by (simp add: env0_def)
  note facts = new_follower_inactive_and_expirable [OF built]
  from facts have
    "0 < (5::int) \<and> os_Stat env0 (ar_realpath ar0) = Inr \<lparr> IsDir = False, ModTime = 99990 \<rparr> \<and>
       ModTime \<lparr> IsDir = False, ModTime = 99990 \<rparr> < now env0 - 5 \<longrightarrow> expired env0 ar0 5"
    by blast
  with stat old have "expired env0 ar0 5" by simp
  with facts built stat old show ?thesis by simp
qed

end
